theory Spec2Isabelle
  imports Main "HOL-Library.Sublist"
begin

section \<open>Python strings\<close>

text \<open>
  A Python \<open>str\<close> is modelled as a \<open>string\<close> (a list of 8-bit characters), so the
  model covers the code points below 256. \<open>isspace\<close> is Python's \<open>str.isspace\<close> on
  one character of that range: tab, line feed, vertical tab, form feed, carriage return,
  the separators 28 to 31, the space, NEL (133) and the no-break space (160). It is the
  set of characters that \<open>str.strip()\<close> and \<open>str.split()\<close> remove.
\<close>

definition isspace :: "char \<Rightarrow> bool" where
  "isspace c =
     (let n = (of_char c :: nat)
      in (9 \<le> n \<and> n \<le> 13) \<or> (28 \<le> n \<and> n \<le> 32) \<or> n = 133 \<or> n = 160)"

text \<open>\<open>s.strip()\<close>: leading and trailing whitespace removed.\<close>

definition strip :: "string \<Rightarrow> string" where
  "strip s = rev (dropWhile isspace (rev (dropWhile isspace s)))"

text \<open>
  \<open>s.split()\<close> with no argument: the maximal runs of non-whitespace characters, in
  order. \<open>split_acc w s\<close> scans \<open>s\<close> with the word \<open>w\<close> read so far.
\<close>

fun split_acc :: "string \<Rightarrow> string \<Rightarrow> string list" where
  "split_acc w [] = (if w = [] then [] else [w])"
| "split_acc w (c # cs) =
     (if isspace c then (if w = [] then split_acc [] cs else w # split_acc [] cs)
      else split_acc (w @ [c]) cs)"

definition split :: "string \<Rightarrow> string list" where
  "split s = split_acc [] s"

text \<open>\<open>sep.join(xs)\<close>.\<close>

fun join :: "string \<Rightarrow> string list \<Rightarrow> string" where
  "join sep [] = []"
| "join sep [x] = x"
| "join sep (x # y # ys) = x @ sep @ join sep (y # ys)"

text \<open>\<open>' '.join(s.split())\<close>, the whitespace clean-up of line 422.\<close>

definition collapse :: "string \<Rightarrow> string" where
  "collapse s = join '' '' (split s)"

section \<open>The parsed document\<close>

text \<open>
  \<open>BeautifulSoup(response.content, 'html.parser')\<close> yields a tree. A node is a text
  string (\<open>NavigableString\<close>), a string of another kind that \<open>get_text\<close> never
  returns (comment, doctype, declaration, processing instruction), or a tag with its
  name, its attribute dictionary (an association list read by \<open>map_of\<close>, values as
  written in the document) and its children. The soup itself is the root tag, named
  \<open>[document]\<close>; every search below looks at the descendants of the node it is given,
  never at the node itself, as in the library.
\<close>

datatype node =
    Text string
  | Comment string
  | Element (tag: string) (attrs: "(string \<times> string) list") (children: "node list")

text \<open>\<open>tag.descendants\<close>: all nodes below, in document order.\<close>

fun descendants :: "node \<Rightarrow> node list" where
  "descendants (Element t a cs) = concat (map (\<lambda>c. c # descendants c) cs)"
| "descendants (Text s) = []"
| "descendants (Comment s) = []"

fun is_tag :: "string list \<Rightarrow> node \<Rightarrow> bool" where
  "is_tag names (Element t a cs) = (t \<in> set names)"
| "is_tag names (Text s) = False"
| "is_tag names (Comment s) = False"

text \<open>\<open>soup.find_all(names)\<close>, also written \<open>soup(names)\<close>, and \<open>soup.find(name)\<close>.\<close>

definition find_all :: "string list \<Rightarrow> node \<Rightarrow> node list" where
  "find_all names n = filter (is_tag names) (descendants n)"

definition find_first :: "string \<Rightarrow> node \<Rightarrow> node option" where
  "find_first name n = List.find (is_tag [name]) (descendants n)"

text \<open>
  The three kinds of CSS selector the extractor uses: a type selector (\<open>article\<close>), an
  attribute selector with an exact value (\<open>[role="main"]\<close>) and a class selector
  (\<open>.article-content\<close>, which holds when the name is one of the whitespace-separated
  tokens of the \<open>class\<close> attribute). \<open>select_one\<close> returns the first descendant, in
  document order, that the selector matches.
\<close>

datatype selector = TypeSel string | AttrSel string string | ClassSel string

fun matches :: "selector \<Rightarrow> node \<Rightarrow> bool" where
  "matches (TypeSel name) (Element t a cs) = (t = name)"
| "matches (AttrSel k v) (Element t a cs) = (map_of a k = Some v)"
| "matches (ClassSel c) (Element t a cs) =
     (case map_of a ''class'' of None \<Rightarrow> False | Some v \<Rightarrow> c \<in> set (split v))"
| "matches sel (Text s) = False"
| "matches sel (Comment s) = False"

definition select_one :: "selector \<Rightarrow> node \<Rightarrow> node option" where
  "select_one sel n = List.find (matches sel) (descendants n)"

text \<open>
  \<open>tag.get_text()\<close> concatenates the text strings below the tag.
  \<open>tag.get_text(separator=' ', strip=True)\<close> strips each of them, drops those that
  become empty and joins the rest with one space.
\<close>

fun text_strings :: "node list \<Rightarrow> string list" where
  "text_strings [] = []"
| "text_strings (Text s # ns) = s # text_strings ns"
| "text_strings (Comment s # ns) = text_strings ns"
| "text_strings (Element t a cs # ns) = text_strings ns"

definition get_text :: "node \<Rightarrow> string" where
  "get_text n = concat (text_strings (descendants n))"

definition get_text_sep_strip :: "node \<Rightarrow> string" where
  "get_text_sep_strip n =
     join '' '' (filter (\<lambda>s. s \<noteq> []) (map strip (text_strings (descendants n))))"

text \<open>
  Lines 399 and 400: \<open>for element in soup([...]): element.decompose()\<close>. The list of
  elements is collected first and each one is then cut out of the tree with everything
  below it, so what is left is the tree without any element of these names.
\<close>

definition unwanted :: "string list" where
  "unwanted = [''script'', ''style'', ''nav'', ''footer'', ''header'', ''aside'']"

fun decompose :: "string list \<Rightarrow> node \<Rightarrow> node" where
  "decompose names (Element t a cs) =
     Element t a (map (decompose names) (filter (\<lambda>c. \<not> is_tag names c) cs))"
| "decompose names (Text s) = Text s"
| "decompose names (Comment s) = Comment s"

section \<open>The content extractor\<close>

text \<open>The selector list of line 410, in its order.\<close>

definition selectors :: "selector list" where
  "selectors =
     [TypeSel ''article'', TypeSel ''main'', AttrSel ''role'' ''main'',
      ClassSel ''article-content'', ClassSel ''post-content'', ClassSel ''entry-content'']"

text \<open>
  Lines 407 to 414. \<open>article_content\<close> starts empty; the loop stops at the first
  selector for which \<open>select_one\<close> returns an element (a tag is always true in a Python
  condition, whatever it contains) and takes that element's text.
\<close>

fun try_selectors :: "selector list \<Rightarrow> node \<Rightarrow> string" where
  "try_selectors [] soup = []"
| "try_selectors (sel # sels) soup =
     (case select_one sel soup of
        Some content \<Rightarrow> get_text_sep_strip content
      | None \<Rightarrow> try_selectors sels soup)"

text \<open>Lines 418 and 419, the paragraph fallback.\<close>

definition paragraph_text :: "node \<Rightarrow> string" where
  "paragraph_text soup =
     join '' ''
       (map (\<lambda>p. strip (get_text p))
         (filter (\<lambda>p. strip (get_text p) \<noteq> []) (find_all [''p''] soup)))"

text \<open>Lines 403 and 404.\<close>

definition title_text :: "node \<Rightarrow> string" where
  "title_text soup =
     (case find_first ''title'' soup of
        Some title \<Rightarrow> strip (get_text title)
      | None \<Rightarrow> ''No title found'')"

text \<open>
  Lines 406 to 422: the text extracted from the soup once the unwanted elements are
  gone.
\<close>

definition main_content :: "node \<Rightarrow> string" where
  "main_content soup =
     (let article_content = try_selectors selectors soup;
          article_content =
            (if article_content = [] then paragraph_text soup else article_content)
      in collapse article_content)"

definition extract_content :: "node \<Rightarrow> string" where
  "extract_content soup = main_content (decompose unwanted soup)"

section \<open>JSON values and the Python operations applied to them\<close>

text \<open>
  The value \<open>request.get_json()\<close> or \<open>response.json()\<close> returns. Numbers are the
  integers (numbers with a fraction are left out; the handlers do no arithmetic). An
  object is an association list read by \<open>map_of\<close>.
\<close>

datatype json =
    JNull
  | JBool bool
  | JInt int
  | JStr string
  | JArr "json list"
  | JObj "(string \<times> json) list"

text \<open>
  The exceptions the handlers can meet, each with its message: \<open>str(e)\<close> is the
  message. \<open>RequestException\<close> is the class the extraction handler catches apart.
\<close>

datatype exn =
    AttributeError string
  | TypeError string
  | RequestException string
  | OtherException string

fun str :: "exn \<Rightarrow> string" where
  "str (AttributeError m) = m"
| "str (TypeError m) = m"
| "str (RequestException m) = m"
| "str (OtherException m) = m"

text \<open>Truth value of a value in a Python condition (\<open>if not query\<close>).\<close>

fun truthy :: "json \<Rightarrow> bool" where
  "truthy JNull = False"
| "truthy (JBool b) = b"
| "truthy (JInt i) = (i \<noteq> 0)"
| "truthy (JStr s) = (s \<noteq> [])"
| "truthy (JArr xs) = (xs \<noteq> [])"
| "truthy (JObj kvs) = (kvs \<noteq> [])"

fun type_name :: "json \<Rightarrow> string" where
  "type_name JNull = ''NoneType''"
| "type_name (JBool b) = ''bool''"
| "type_name (JInt i) = ''int''"
| "type_name (JStr s) = ''str''"
| "type_name (JArr xs) = ''list''"
| "type_name (JObj kvs) = ''dict''"

definition quoted :: "string \<Rightarrow> string" where
  "quoted s = [CHR 0x27] @ s @ [CHR 0x27]"

text \<open>\<open>data.get(key, default)\<close>: only a dict has the method.\<close>

fun dict_get :: "json \<Rightarrow> string \<Rightarrow> json \<Rightarrow> exn + json" where
  "dict_get (JObj kvs) k d = Inr (case map_of kvs k of Some v \<Rightarrow> v | None \<Rightarrow> d)"
| "dict_get v k d =
     Inl (AttributeError (quoted (type_name v) @ '' object has no attribute '' @ quoted ''get''))"

text \<open>\<open>len(v)\<close>: strings, lists and dicts have a length.\<close>

fun py_len :: "json \<Rightarrow> exn + nat" where
  "py_len (JStr s) = Inr (length s)"
| "py_len (JArr xs) = Inr (length xs)"
| "py_len (JObj kvs) = Inr (length kvs)"
| "py_len v = Inl (TypeError (''object of type '' @ quoted (type_name v) @ '' has no len()''))"

section \<open>Requests, replies and calls to the outside\<close>

text \<open>
  A handler returns a body and a status code (\<open>jsonify(...)\<close> alone means status 200),
  or lets an exception escape. What it asks of the outside is recorded in \<open>calls\<close>: a
  GET to the news API with its parameters, a GET of a page, a prompt sent to the AI
  model.
\<close>

datatype body = Json json | Raw string

type_synonym response = "body \<times> int"

datatype call =
    NewsGet string "(string \<times> json) list"
  | PageGet json
  | GenerateContent string

record outcome =
  reply :: "exn + response"
  calls :: "call list"

text \<open>
  What the news API does when asked: \<open>requests.get\<close> or \<open>response.json()\<close> raises, or
  there is a status code and a parsed body.
\<close>

datatype upstream = Raised exn | Answered int json

definition NEWS_API_BASE :: string where
  "NEWS_API_BASE = ''https://newsapi.org/v2''"

section \<open>Demo articles\<close>

text \<open>
  Lines 85 to 143. The six \<open>publishedAt\<close> strings come from the clock and the random
  generator; one call of \<open>get_demo_articles\<close> is given its six strings.
\<close>

type_synonym stamps = "string \<times> string \<times> string \<times> string \<times> string \<times> string"

definition demo_article :: "string \<Rightarrow> string \<Rightarrow> string \<Rightarrow> string \<Rightarrow> string \<Rightarrow> json" where
  "demo_article source title description url publishedAt =
     JObj [(''source'', JObj [(''name'', JStr source)]),
           (''title'', JStr title),
           (''description'', JStr description),
           (''url'', JStr url),
           (''publishedAt'', JStr publishedAt),
           (''urlToImage'', JNull)]"

fun get_demo_articles :: "stamps \<Rightarrow> json list" where
  "get_demo_articles (t1, t2, t3, t4, t5, t6) =
     [demo_article ''Tech Daily''
        ''Revolutionary AI System Achieves Human-Level Reasoning''
        ''Scientists announce breakthrough in artificial intelligence that enables machines to solve complex problems with human-like reasoning capabilities.''
        ''https://example.com/ai-breakthrough'' t1,
      demo_article ''Global News Network''
        ''Sustainable Energy Solutions Transform Power Generation''
        ''New renewable energy technology promises to revolutionize how we generate and store electricity, making clean energy more accessible.''
        ''https://example.com/energy-solutions'' t2,
      demo_article ''Innovation Weekly''
        ''Quantum Computing Reaches Commercial Milestone''
        ''Major tech companies announce quantum computers are now available for enterprise applications, marking a new era in computing.''
        ''https://example.com/quantum-computing'' t3,
      demo_article ''Health Monitor''
        ''Medical AI Improves Early Disease Detection''
        ''New artificial intelligence tools help doctors identify diseases earlier and with greater accuracy, improving patient outcomes.''
        ''https://example.com/medical-ai'' t4,
      demo_article ''Space Gazette''
        ''Mars Colony Project Enters New Phase''
        ''International space agencies collaborate on ambitious plan to establish permanent human settlement on Mars by 2030.''
        ''https://example.com/mars-colony'' t5,
      demo_article ''Business Insider''
        ''Digital Currency Adoption Accelerates Globally''
        ''Central banks worldwide move forward with digital currency initiatives as adoption rates surge across major economies.''
        ''https://example.com/digital-currency'' t6]"

section \<open>The trending handler\<close>

text \<open>
  \<open>not NEWS_API_KEY\<close> holds when the variable is unset (\<open>os.getenv\<close> gives \<open>None\<close>)
  and when it is the empty string. Lines 181 to 186 are the reply then.
\<close>

definition trending_demo :: "stamps \<Rightarrow> outcome" where
  "trending_demo ts =
     \<lparr>reply =
        Inr (Json (JObj [(''status'', JStr ''ok''),
                         (''totalResults'', JInt (int (length (get_demo_articles ts)))),
                         (''articles'', JArr (get_demo_articles ts)),
                         (''note'', JStr ''DEMO DATA - Add NEWS_API_KEY to .env for real news'')]),
             200),
      calls = []\<rparr>"

definition error_500 :: "exn \<Rightarrow> response" where
  "error_500 e = (Json (JObj [(''error'', JStr (str e))]), 500)"

text \<open>
  Lines 199 to 216, the part of the \<open>try\<close> block after the request. Both \<open>print\<close>
  lines that read \<open>data\<close> are kept, since they raise when \<open>data\<close> is not a dict or
  \<open>articles\<close> has no length.
\<close>

fun trending_try :: "upstream \<Rightarrow> stamps \<Rightarrow> exn + response" where
  "trending_try (Raised e) ts = Inl e"
| "trending_try (Answered status_code data) ts =
     (if status_code = 200 then
        (case dict_get data ''articles'' (JArr []) of
           Inl e \<Rightarrow> Inl e
         | Inr articles \<Rightarrow>
             (case py_len articles of
                Inl e \<Rightarrow> Inl e
              | Inr n \<Rightarrow> Inr (Json data, 200)))
      else
        (case dict_get data ''message'' (JStr ''Unknown error'') of
           Inl e \<Rightarrow> Inl e
         | Inr shown \<Rightarrow>
             let mirrored =
                   (case dict_get data ''message'' (JStr ''Failed to fetch news'') of
                      Inl e \<Rightarrow> Inl e
                    | Inr message \<Rightarrow> Inr (Json (JObj [(''error'', message)]), status_code))
             in if status_code = 401 then mirrored
                else if status_code = 429 then
                  Inr (Json (JObj [(''status'', JStr ''ok''),
                                   (''articles'', JArr (get_demo_articles ts)),
                                   (''note'', JStr ''Rate limit exceeded - showing demo data'')]),
                       200)
                else mirrored))"

text \<open>
  Lines 165 to 220. \<open>category_arg\<close> is the \<open>category\<close> query parameter, if given;
  \<open>ts\<close> are the time strings of the one call of \<open>get_demo_articles\<close> a request can
  make; \<open>response\<close> is what the news API does if it is asked.
\<close>

definition get_trending ::
  "string \<Rightarrow> string option \<Rightarrow> string option \<Rightarrow> stamps \<Rightarrow> upstream \<Rightarrow> outcome" where
  "get_trending method category_arg NEWS_API_KEY ts response =
     (if method = ''OPTIONS'' then \<lparr>reply = Inr (Raw [], 204), calls = []\<rparr>
      else
        let category = (case category_arg of Some c \<Rightarrow> c | None \<Rightarrow> ''general'')
        in case NEWS_API_KEY of
             None \<Rightarrow> trending_demo ts
           | Some key \<Rightarrow>
               if key = [] then trending_demo ts
               else
                 \<lparr>reply =
                    Inr (case trending_try response ts of
                           Inl e \<Rightarrow> error_500 e
                         | Inr r \<Rightarrow> r),
                  calls =
                    [NewsGet (NEWS_API_BASE @ ''/top-headlines'')
                       [(''category'', JStr category),
                        (''language'', JStr ''en''),
                        (''pageSize'', JInt 20),
                        (''apiKey'', JStr key)]]\<rparr>)"

section \<open>The search handler\<close>

text \<open>Lines 256 to 263, after the request.\<close>

fun search_try :: "upstream \<Rightarrow> exn + response" where
  "search_try (Raised e) = Inl e"
| "search_try (Answered status_code data) =
     (if status_code = 200 then
        (case dict_get data ''articles'' (JArr []) of
           Inl e \<Rightarrow> Inl e
         | Inr articles \<Rightarrow>
             (case py_len articles of
                Inl e \<Rightarrow> Inl e
              | Inr n \<Rightarrow> Inr (Json data, 200)))
      else
        (case dict_get data ''message'' (JStr ''Unknown error'') of
           Inl e \<Rightarrow> Inl e
         | Inr shown \<Rightarrow>
             (case dict_get data ''message'' (JStr ''Search failed'') of
                Inl e \<Rightarrow> Inl e
              | Inr message \<Rightarrow> Inr (Json (JObj [(''error'', message)]), status_code))))"

text \<open>
  Lines 224 to 267. \<open>get_json\<close> is what \<open>request.get_json()\<close> does: it raises or
  returns the parsed body. Lines 229 and 230 are outside the \<open>try\<close> block, so their
  exceptions escape. The demo reply calls \<open>get_demo_articles\<close> twice, once for the
  count (\<open>ts1\<close>) and once for the articles (\<open>ts2\<close>).
\<close>

definition search_demo :: "stamps \<Rightarrow> stamps \<Rightarrow> outcome" where
  "search_demo ts1 ts2 =
     \<lparr>reply =
        Inr (Json (JObj [(''status'', JStr ''ok''),
                         (''totalResults'', JInt (int (length (get_demo_articles ts1)))),
                         (''articles'', JArr (get_demo_articles ts2)),
                         (''note'', JStr ''DEMO DATA - Add NEWS_API_KEY to .env for real search'')]),
             200),
      calls = []\<rparr>"

definition search_news ::
  "string \<Rightarrow> exn + json \<Rightarrow> string option \<Rightarrow> stamps \<Rightarrow> stamps \<Rightarrow> upstream \<Rightarrow> outcome" where
  "search_news method get_json NEWS_API_KEY ts1 ts2 response =
     (if method = ''OPTIONS'' then \<lparr>reply = Inr (Raw [], 204), calls = []\<rparr>
      else
        case get_json of
          Inl e \<Rightarrow> \<lparr>reply = Inl e, calls = []\<rparr>
        | Inr data \<Rightarrow>
            (case dict_get data ''query'' (JStr []) of
               Inl e \<Rightarrow> \<lparr>reply = Inl e, calls = []\<rparr>
             | Inr query \<Rightarrow>
                 if \<not> truthy query then
                   \<lparr>reply = Inr (Json (JObj [(''error'', JStr ''Query is required'')]), 400),
                    calls = []\<rparr>
                 else
                   (case NEWS_API_KEY of
                      None \<Rightarrow> search_demo ts1 ts2
                    | Some key \<Rightarrow>
                        if key = [] then search_demo ts1 ts2
                        else
                          \<lparr>reply =
                             Inr (case search_try response of
                                    Inl e \<Rightarrow> error_500 e
                                  | Inr r \<Rightarrow> r),
                           calls =
                             [NewsGet (NEWS_API_BASE @ ''/everything'')
                                [(''q'', query),
                                 (''language'', JStr ''en''),
                                 (''sortBy'', JStr ''publishedAt''),
                                 (''pageSize'', JInt 20),
                                 (''apiKey'', JStr key)]]\<rparr>)))"

section \<open>The summarize handler\<close>

text \<open>
  The AI model is absent (\<open>gemini_model\<close> is \<open>None\<close>) or present; when present, the
  value says what \<open>generate_content(prompt, ...)\<close> followed by \<open>.text\<close> does on this
  request: it raises, or gives the text. The generation settings passed along with the
  prompt do not reach the reply and are left out.
\<close>

type_synonym gemini = "(exn + string) option"

definition newline :: string where
  "newline = [CHR 0x0A]"

text \<open>The prompt of lines 302 to 308, with \<open>article\<close> for the text of \<open>text[:3000]\<close>.\<close>

definition summarize_prompt :: "string \<Rightarrow> string" where
  "summarize_prompt article =
     join newline
       [''Please provide a concise and informative summary of the following article. '',
        ''        Include the main points and key takeaways in 3-4 sentences.'',
        ''        '',
        ''        Article:'',
        ''        '' @ article,
        ''        '',
        ''        Summary:'']"

definition summarize_failed :: "exn \<Rightarrow> response" where
  "summarize_failed e =
     (Json (JObj [(''error'', JStr (''AI summarization failed: '' @ str e)),
                  (''details'', JStr ''Check server logs for more information'')]),
      500)"

text \<open>
  Lines 278 to 372. The whole body is inside the \<open>try\<close> block, so every exception
  becomes the reply of lines 369 to 372. \<open>sliced\<close> is what formatting \<open>text[:3000]\<close>
  gives when \<open>text\<close> is not a string (a list prints, a dict raises); for a string it
  is the first 3000 characters.
\<close>

definition summarize_article :: "string \<Rightarrow> exn + json \<Rightarrow> gemini \<Rightarrow> exn + string \<Rightarrow> outcome" where
  "summarize_article method get_json gemini_model sliced =
     (if method = ''OPTIONS'' then \<lparr>reply = Inr (Raw [], 204), calls = []\<rparr>
      else
        case get_json of
          Inl e \<Rightarrow> \<lparr>reply = Inr (summarize_failed e), calls = []\<rparr>
        | Inr data \<Rightarrow>
            if \<not> truthy data then
              \<lparr>reply = Inr (Json (JObj [(''error'', JStr ''No data received'')]), 400),
               calls = []\<rparr>
            else
              (case dict_get data ''text'' (JStr []) of
                 Inl e \<Rightarrow> \<lparr>reply = Inr (summarize_failed e), calls = []\<rparr>
               | Inr text \<Rightarrow>
                   (case py_len text of
                      Inl e \<Rightarrow> \<lparr>reply = Inr (summarize_failed e), calls = []\<rparr>
                    | Inr original_length \<Rightarrow>
                        if \<not> truthy text then
                          \<lparr>reply =
                             Inr (Json (JObj [(''error'', JStr ''Text is required'')]), 400),
                           calls = []\<rparr>
                        else
                          (case gemini_model of
                             None \<Rightarrow>
                               \<lparr>reply =
                                  Inr (Json (JObj
                                         [(''summary'',
                                           JStr ''This is a demo summary. To get real AI-powered summaries, please configure your Gemini API key in the .env file. Visit https://makersuite.google.com/app/apikey to get your free API key.''),
                                          (''ai_model'', JStr ''Demo Mode''),
                                          (''note'', JStr ''Gemini API key not configured'')]),
                                       200),
                                calls = []\<rparr>
                           | Some generated \<Rightarrow>
                               (case (case text of JStr s \<Rightarrow> Inr (take 3000 s) | _ \<Rightarrow> sliced) of
                                  Inl e \<Rightarrow> \<lparr>reply = Inr (summarize_failed e), calls = []\<rparr>
                                | Inr article \<Rightarrow>
                                    \<lparr>reply =
                                       Inr (case generated of
                                              Inl e \<Rightarrow> summarize_failed e
                                            | Inr summary \<Rightarrow>
                                                if summary = [] then
                                                  (Json (JObj
                                                     [(''error'',
                                                       JStr ''Content generation was blocked by safety filters''),
                                                      (''summary'',
                                                       JStr ''Unable to generate summary for this content.'')]),
                                                   200)
                                                else
                                                  (Json (JObj
                                                     [(''summary'', JStr summary),
                                                      (''original_length'',
                                                       JInt (int original_length)),
                                                      (''summary_length'',
                                                       JInt (int (length summary))),
                                                      (''ai_model'', JStr ''Gemini Pro'')]),
                                                   200)),
                                     calls = [GenerateContent (summarize_prompt article)]\<rparr>)))))"

section \<open>The extraction handler\<close>

text \<open>The prompt of lines 436 to 450.\<close>

definition extract_prompt :: "string \<Rightarrow> string \<Rightarrow> string" where
  "extract_prompt title article =
     join newline
       [''Please provide a comprehensive summary of this article:'',
        ''                '',
        ''                Title: '' @ title,
        ''                '',
        ''                Content:'',
        ''                '' @ article,
        ''                '',
        ''                Provide a summary that includes:'',
        ''                1. Main topic and key points'',
        ''                2. Important facts or findings'',
        ''                3. Conclusions or implications'',
        ''                '',
        ''                Keep it concise (3-5 sentences).'',
        ''                '',
        ''                Summary:'']"

text \<open>Lines 426 to 431: the result before any summary is added.\<close>

definition extraction_result :: "json \<Rightarrow> string \<Rightarrow> string \<Rightarrow> (string \<times> json) list" where
  "extraction_result url title article_content =
     [(''url'', url),
      (''title'', JStr title),
      (''content'', JStr (take 5000 article_content)),
      (''content_length'', JInt (int (length article_content)))]"

text \<open>
  Lines 396 to 475, from the parsed page to the reply. The summary is asked for when
  \<open>summarize\<close> is true, the content is not empty and the model is there (line 434); a
  failure of the model puts a fixed sentence in its place. With no model and
  \<open>summarize\<close> true, line 473 applies. The two conditions are written here as one case
  distinction on the model.
\<close>

definition extract_page :: "json \<Rightarrow> json \<Rightarrow> node \<Rightarrow> gemini \<Rightarrow> outcome" where
  "extract_page url summarize soup0 gemini_model =
     (let soup = decompose unwanted soup0;
          title = title_text soup;
          article_content = main_content soup;
          result = extraction_result url title article_content
      in case gemini_model of
           Some generated \<Rightarrow>
             if truthy summarize \<and> article_content \<noteq> [] then
               \<lparr>reply =
                  Inr (Json (JObj
                         (case generated of
                            Inr summary \<Rightarrow>
                              result @
                              [(''summary'', JStr summary), (''ai_model'', JStr ''Gemini 1.5'')]
                          | Inl e \<Rightarrow>
                              result @
                              [(''summary'',
                                JStr ''Summary generation unavailable. Please configure Gemini API key.'')])),
                       200),
                calls = [PageGet url,
                         GenerateContent (extract_prompt title (take 3000 article_content))]\<rparr>
             else \<lparr>reply = Inr (Json (JObj result), 200), calls = [PageGet url]\<rparr>
         | None \<Rightarrow>
             if truthy summarize then
               \<lparr>reply =
                  Inr (Json (JObj
                         (result @
                          [(''summary'',
                            JStr ''AI summarization unavailable. Please configure Gemini API key in .env file.'')])),
                       200),
                calls = [PageGet url]\<rparr>
             else \<lparr>reply = Inr (Json (JObj result), 200), calls = [PageGet url]\<rparr>)"

text \<open>
  Lines 375 to 482. \<open>fetched\<close> is what lines 393 to 396 do: \<open>requests.get\<close>,
  \<open>raise_for_status\<close> or the parser raises, or there is a parsed page. Lines 380 to
  382 are outside the \<open>try\<close> block.
\<close>

definition extract_from_url :: "string \<Rightarrow> exn + json \<Rightarrow> exn + node \<Rightarrow> gemini \<Rightarrow> outcome" where
  "extract_from_url method get_json fetched gemini_model =
     (if method = ''OPTIONS'' then \<lparr>reply = Inr (Raw [], 204), calls = []\<rparr>
      else
        case get_json of
          Inl e \<Rightarrow> \<lparr>reply = Inl e, calls = []\<rparr>
        | Inr data \<Rightarrow>
            (case dict_get data ''url'' (JStr []) of
               Inl e \<Rightarrow> \<lparr>reply = Inl e, calls = []\<rparr>
             | Inr url \<Rightarrow>
                 (case dict_get data ''summarize'' (JBool True) of
                    Inl e \<Rightarrow> \<lparr>reply = Inl e, calls = []\<rparr>
                  | Inr summarize \<Rightarrow>
                      if \<not> truthy url then
                        \<lparr>reply = Inr (Json (JObj [(''error'', JStr ''URL is required'')]), 400),
                         calls = []\<rparr>
                      else
                        (case fetched of
                           Inl (RequestException m) \<Rightarrow>
                             \<lparr>reply =
                                Inr (Json (JObj [(''error'', JStr (''Failed to fetch URL: '' @ m))]),
                                     500),
                              calls = [PageGet url]\<rparr>
                         | Inl e \<Rightarrow> \<lparr>reply = Inr (error_500 e), calls = [PageGet url]\<rparr>
                         | Inr soup \<Rightarrow> extract_page url summarize soup gemini_model))))"

section \<open>Reading a reply\<close>

text \<open>
  The status code of a reply, and the value of a field of its JSON body. Neither exists
  when the handler let an exception escape; a body that is not a JSON object has no
  fields.
\<close>

fun status_of :: "outcome \<Rightarrow> int option" where
  "status_of out = (case reply out of Inl e \<Rightarrow> None | Inr (b, status_code) \<Rightarrow> Some status_code)"

fun field_of :: "outcome \<Rightarrow> string \<Rightarrow> json option" where
  "field_of out k =
     (case reply out of
        Inr (Json (JObj kvs), status_code) \<Rightarrow> map_of kvs k
      | _ \<Rightarrow> None)"

section \<open>Properties of the string functions\<close>

lemma split_acc_append_space:
  "isspace c \<Longrightarrow> split_acc w (a @ c # b) = split_acc w a @ split_acc [] b"
  by (induction a arbitrary: w) auto

lemma split_acc_trailing:
  "\<forall>c \<in> set ws. isspace c \<Longrightarrow> split_acc w (s @ ws) = split_acc w s"
proof (induction s arbitrary: w)
  case Nil
  then show ?case by (induction ws arbitrary: w) auto
next
  case (Cons c s)
  then show ?case by auto
qed

lemma split_acc_dropWhile: "split_acc [] (dropWhile isspace s) = split_acc [] s"
  by (induction s) auto

text \<open>Stripping a string does not change its words.\<close>

lemma split_strip: "split (strip s) = split s"
proof -
  let ?t = "dropWhile isspace s"
  have "?t = rev (dropWhile isspace (rev ?t)) @ rev (takeWhile isspace (rev ?t))"
    by (metis rev_append rev_rev_ident takeWhile_dropWhile_id)
  moreover have "\<forall>c \<in> set (rev (takeWhile isspace (rev ?t))). isspace c"
    by (auto dest: set_takeWhileD)
  ultimately have "split_acc [] ?t = split_acc [] (rev (dropWhile isspace (rev ?t)))"
    by (metis split_acc_trailing)
  then show ?thesis
    by (simp add: split_def strip_def split_acc_dropWhile)
qed

lemma isspace_space: "isspace CHR '' ''"
  by (simp add: isspace_def)

lemma split_Nil: "split [] = []"
  by (simp add: split_def)

text \<open>The words of strings joined by a space are the words of each, in order.\<close>

lemma split_join: "split (join '' '' xs) = concat (map split xs)"
proof (induction xs rule: induct_list012)
  case (3 x y ys)
  then show ?case
    by (simp add: split_def split_acc_append_space isspace_space)
qed (simp_all add: split_def)

lemma strip_Nil_split: "strip s = [] \<Longrightarrow> split s = []"
  by (metis split_strip split_Nil)

lemma concat_split_strip_filter:
  "concat (map split (map (\<lambda>p. strip (f p)) (filter (\<lambda>p. strip (f p) \<noteq> []) ps)))
     = concat (map split (map f ps))"
  by (induction ps) (auto simp: split_strip strip_Nil_split)

text \<open>
  After the clean-up of line 422, the paragraph fallback of lines 418 and 419 (strip
  each paragraph, drop the empty ones, join) is the plain join of the paragraphs' texts.
\<close>

lemma collapse_paragraph_text:
  "collapse (paragraph_text soup) =
   collapse (join '' '' (map get_text (find_all [''p''] soup)))"
  by (simp only: collapse_def paragraph_text_def split_join concat_split_strip_filter)

text \<open>Strings without whitespace are left as they are.\<close>

lemma split_acc_nospace:
  "\<forall>c \<in> set s. \<not> isspace c \<Longrightarrow> split_acc w s = (if w @ s = [] then [] else [w @ s])"
  by (induction s arbitrary: w) auto

lemma collapse_nospace: "\<forall>c \<in> set s. \<not> isspace c \<Longrightarrow> collapse s = s"
  by (simp add: collapse_def split_def split_acc_nospace)

lemma dropWhile_none: "\<forall>c \<in> set s. \<not> P c \<Longrightarrow> dropWhile P s = s"
  by (cases s) auto

lemma strip_nospace: "\<forall>c \<in> set s. \<not> isspace c \<Longrightarrow> strip s = s"
  by (simp add: strip_def dropWhile_none)

section \<open>Properties of the selector loop\<close>


lemma try_selectors_None:
  "\<forall>sel \<in> set sels. select_one sel soup = None \<Longrightarrow> try_selectors sels soup = []"
  by (induction sels) auto

lemma try_selectors_first:
  "\<forall>s \<in> set pre. select_one s soup = None \<Longrightarrow> select_one sel soup = Some c \<Longrightarrow>
   try_selectors (pre @ sel # post) soup = get_text_sep_strip c"
  by (induction pre) auto

text \<open>
  Removing elements changes neither the name nor the attributes of those that stay, so
  a selector that matches nothing in the page as fetched matches nothing after the
  removal either.
\<close>

lemma matches_decompose: "matches sel (decompose names n) = matches sel n"
  by (cases n; cases sel) simp_all

lemma descendants_decompose:
  "set (descendants (decompose names n)) \<subseteq> decompose names ` set (descendants n)"
proof (induction n)
  case (Element t a cs)
  show ?case
  proof
    fix d
    assume "d \<in> set (descendants (decompose names (Element t a cs)))"
    then obtain c where c: "c \<in> set cs"
      and d: "d = decompose names c \<or> d \<in> set (descendants (decompose names c))"
      by auto
    from d show "d \<in> decompose names ` set (descendants (Element t a cs))"
    proof
      assume "d = decompose names c"
      with c show ?thesis by auto
    next
      assume "d \<in> set (descendants (decompose names c))"
      with Element.IH [OF c] obtain d0 where "d0 \<in> set (descendants c)" "d = decompose names d0"
        by auto
      with c show ?thesis by auto
    qed
  qed
qed simp_all

lemma select_one_decompose_None:
  assumes "select_one sel soup = None"
  shows "select_one sel (decompose names soup) = None"
proof -
  from assms have none: "\<forall>d \<in> set (descendants soup). \<not> matches sel d"
    by (simp add: select_one_def find_None_iff)
  have "\<forall>d \<in> set (descendants (decompose names soup)). \<not> matches sel d"
  proof
    fix d
    assume "d \<in> set (descendants (decompose names soup))"
    with descendants_decompose obtain d0 where "d0 \<in> set (descendants soup)"
      and "d = decompose names d0"
      by blast
    with none show "\<not> matches sel d"
      by (simp add: matches_decompose)
  qed
  then show ?thesis
    by (simp add: select_one_def find_None_iff)
qed

section \<open>Properties of the extraction reply\<close>

lemma map_of_extraction_result_append:
  "map_of (extraction_result url title article_content @ extra) ''content''
     = Some (JStr (take 5000 article_content))"
  "map_of (extraction_result url title article_content @ extra) ''content_length''
     = Some (JInt (int (length article_content)))"
  by (simp_all add: extraction_result_def)

lemma extract_page_fields:
  assumes "reply (extract_page url summarize soup gemini_model) = Inr (Json (JObj flds), status_code)"
  shows "map_of flds ''content'' = Some (JStr (take 5000 (extract_content soup)))
       \<and> map_of flds ''content_length'' = Some (JInt (int (length (extract_content soup))))"
  using assms map_of_extraction_result_append [where extra = "[]"]
  by (auto simp: extract_page_def extract_content_def Let_def map_of_extraction_result_append
           split: option.splits if_splits sum.splits)

lemma extract_from_url_200:
  assumes "reply (extract_from_url method get_json fetched gemini_model) = Inr (Json (JObj flds), 200)"
  shows "\<exists>soup. fetched = Inr soup
       \<and> map_of flds ''content'' = Some (JStr (take 5000 (extract_content soup)))
       \<and> map_of flds ''content_length'' = Some (JInt (int (length (extract_content soup))))"
  using assms
  by (auto simp: extract_from_url_def error_500_def
           split: if_splits sum.splits exn.splits dest: extract_page_fields)

section \<open>The extractor's selector order and fallback\<close>

text \<open>
  C1 (as amended). The extractor returns the whitespace-collapsed text of the element
  matched by the first selector of the priority list that matches anything in the
  document left after the unwanted elements are removed; when that text is empty, or
  when no selector matches, it returns the collapsed paragraph text. A later selector
  is not tried once an earlier one has matched.
\<close>

theorem extract_content_first_match:
  "(selectors = pre @ sel # post \<and>
    (\<forall>s \<in> set pre. select_one s (decompose unwanted soup) = None) \<and>
    select_one sel (decompose unwanted soup) = Some c
    \<longrightarrow> extract_content soup =
          collapse (if get_text_sep_strip c = []
                    then paragraph_text (decompose unwanted soup)
                    else get_text_sep_strip c))
   \<and> ((\<forall>s \<in> set selectors. select_one s (decompose unwanted soup) = None)
    \<longrightarrow> extract_content soup = collapse (paragraph_text (decompose unwanted soup)))"
proof (intro conjI impI)
  assume h: "selectors = pre @ sel # post \<and>
    (\<forall>s \<in> set pre. select_one s (decompose unwanted soup) = None) \<and>
    select_one sel (decompose unwanted soup) = Some c"
  then have "try_selectors (pre @ sel # post) (decompose unwanted soup) = get_text_sep_strip c"
    by (intro try_selectors_first) auto
  with h have "try_selectors selectors (decompose unwanted soup) = get_text_sep_strip c"
    by simp
  then show "extract_content soup =
          collapse (if get_text_sep_strip c = []
                    then paragraph_text (decompose unwanted soup)
                    else get_text_sep_strip c)"
    by (simp add: extract_content_def main_content_def)
next
  assume "\<forall>s \<in> set selectors. select_one s (decompose unwanted soup) = None"
  then have "try_selectors selectors (decompose unwanted soup) = []"
    by (rule try_selectors_None)
  then show "extract_content soup = collapse (paragraph_text (decompose unwanted soup))"
    by (simp add: extract_content_def main_content_def)
qed

text \<open>
  Witness: a page whose first matching selector is the fifth one (\<open>.post-content\<close>),
  and a page with paragraphs only.
\<close>

theorem extract_content_first_match_witness:
  "extract_content
     (Element ''[document]'' []
        [Element ''div'' [(''class'', ''wide post-content'')]
           [Text '' body   text '', Element ''b'' [] [Text ''bold'']],
         Element ''p'' [] [Text ''elsewhere'']]) = ''body text bold''
   \<and> extract_content
     (Element ''[document]'' [] [Element ''p'' [] [Text ''a''], Element ''p'' [] [Text ''b'']])
       = ''a b''"
proof -
  let ?d1 = "Element ''[document]'' []
        [Element ''div'' [(''class'', ''wide post-content'')]
           [Text '' body   text '', Element ''b'' [] [Text ''bold'']],
         Element ''p'' [] [Text ''elsewhere'']]"
  let ?c = "Element ''div'' [(''class'', ''wide post-content'')]
           [Text '' body   text '', Element ''b'' [] [Text ''bold'']]"
  let ?pre = "[TypeSel ''article'', TypeSel ''main'', AttrSel ''role'' ''main'',
      ClassSel ''article-content'']"
  let ?d2 = "Element ''[document]'' []
        [Element ''p'' [] [Text ''a''], Element ''p'' [] [Text ''b'']]"
  have h1: "selectors = ?pre @ ClassSel ''post-content'' # [ClassSel ''entry-content''] \<and>
    (\<forall>s \<in> set ?pre. select_one s (decompose unwanted ?d1) = None) \<and>
    select_one (ClassSel ''post-content'') (decompose unwanted ?d1) = Some ?c"
    by code_simp
  have r1: "collapse (if get_text_sep_strip ?c = []
                    then paragraph_text (decompose unwanted ?d1)
                    else get_text_sep_strip ?c) = ''body text bold''"
    by code_simp
  have h2: "\<forall>s \<in> set selectors. select_one s (decompose unwanted ?d2) = None"
    by code_simp
  have r2: "collapse (paragraph_text (decompose unwanted ?d2)) = ''a b''"
    by code_simp
  from extract_content_first_match
         [of ?pre "ClassSel ''post-content''" "[ClassSel ''entry-content'']" ?d1 ?c] h1 r1
  have "extract_content ?d1 = ''body text bold''"
    by simp
  moreover from extract_content_first_match [of _ _ _ ?d2] h2 r2
  have "extract_content ?d2 = ''a b''"
    by simp
  ultimately show ?thesis by simp
qed

text \<open>
  C1 as stated fails: the first selector matches an \<open>article\<close> element with no text,
  the second matches a \<open>main\<close> element with the text \<open>hello\<close>, and the extractor
  returns the empty string, not \<open>hello\<close>.
\<close>

theorem extract_content_later_selector_counterexample:
  "select_one (TypeSel ''article'')
     (Element ''[document]'' []
        [Element ''article'' [] [], Element ''main'' [] [Text ''hello'']])
     = Some (Element ''article'' [] [])
   \<and> get_text_sep_strip (Element ''article'' [] []) = []
   \<and> select_one (TypeSel ''main'')
     (Element ''[document]'' []
        [Element ''article'' [] [], Element ''main'' [] [Text ''hello'']])
     = Some (Element ''main'' [] [Text ''hello''])
   \<and> get_text_sep_strip (Element ''main'' [] [Text ''hello'']) = ''hello''
   \<and> extract_content
     (Element ''[document]'' []
        [Element ''article'' [] [], Element ''main'' [] [Text ''hello'']])
     \<noteq> ''hello''
   \<and> extract_content
     (Element ''[document]'' []
        [Element ''article'' [] [], Element ''main'' [] [Text ''hello'']])
     = []"
  by code_simp

text \<open>
  C2 (as amended). When an \<open>article\<close> element is left after the unwanted elements are
  removed and the first one has a non-empty text, the extractor returns that text with
  its whitespace collapsed, whatever paragraphs the rest of the document holds.
\<close>

theorem extract_content_article:
  assumes "select_one (TypeSel ''article'') (decompose unwanted soup) = Some a"
    and "get_text_sep_strip a \<noteq> []"
  shows "extract_content soup = collapse (get_text_sep_strip a)"
proof -
  have "try_selectors selectors (decompose unwanted soup) = get_text_sep_strip a"
    using assms(1) by (simp add: selectors_def)
  with assms(2) show ?thesis
    by (simp add: extract_content_def main_content_def)
qed

theorem extract_content_article_witness:
  "extract_content
     (Element ''[document]'' []
        [Element ''p'' [] [Text ''before''],
         Element ''article'' [] [Element ''h1'' [] [Text ''Head''], Text ''  story ''],
         Element ''p'' [] [Text ''after'']]) = ''Head story''"
proof -
  let ?d = "Element ''[document]'' []
        [Element ''p'' [] [Text ''before''],
         Element ''article'' [] [Element ''h1'' [] [Text ''Head''], Text ''  story ''],
         Element ''p'' [] [Text ''after'']]"
  let ?a = "Element ''article'' [] [Element ''h1'' [] [Text ''Head''], Text ''  story '']"
  have h1: "select_one (TypeSel ''article'') (decompose unwanted ?d) = Some ?a"
    by code_simp
  have h2: "get_text_sep_strip ?a \<noteq> []"
    by code_simp
  have r: "collapse (get_text_sep_strip ?a) = ''Head story''"
    by code_simp
  from extract_content_article [OF h1 h2] r show ?thesis by simp
qed

text \<open>
  C2 as stated fails: the page has an \<open>article\<close> element, its text is empty, and the
  extractor returns the text of the paragraph beside it.
\<close>

theorem extract_content_empty_article_counterexample:
  "select_one (TypeSel ''article'')
     (Element ''[document]'' []
        [Element ''article'' [] [], Element ''p'' [] [Text ''hi'']])
     = Some (Element ''article'' [] [])
   \<and> get_text_sep_strip (Element ''article'' [] []) = []
   \<and> extract_content
     (Element ''[document]'' []
        [Element ''article'' [] [], Element ''p'' [] [Text ''hi'']])
     = ''hi''"
  by code_simp

text \<open>
  C3 (as amended). When none of the six container selectors matches in the page left
  after its script, style, nav, footer, header and aside elements are removed, the
  extractor returns the texts of all paragraph elements of that remaining page joined
  by a space, with whitespace collapsed. Paragraphs inside a removed element do not
  contribute. By \<open>select_one_decompose_None\<close> the hypothesis holds in particular when
  no selector matches in the page as fetched.
\<close>

theorem extract_content_paragraph_fallback:
  assumes "\<forall>sel \<in> set selectors. select_one sel (decompose unwanted soup) = None"
  shows "extract_content soup =
         collapse (join '' '' (map get_text (find_all [''p''] (decompose unwanted soup))))"
proof -
  have "try_selectors selectors (decompose unwanted soup) = []"
    using assms by (rule try_selectors_None)
  then have "extract_content soup = collapse (paragraph_text (decompose unwanted soup))"
    by (simp add: extract_content_def main_content_def)
  then show ?thesis
    by (simp only: collapse_paragraph_text)
qed

theorem extract_content_paragraph_fallback_witness:
  "extract_content
     (Element ''[document]'' []
        [Element ''div'' []
           [Element ''p'' [] [Text '' first  para ''],
            Element ''p'' [] [Text ''  ''],
            Comment ''note'',
            Element ''p'' [] [Text ''second'', Element ''i'' [] [Text ''!'']]]])
     = ''first para second!''"
proof -
  let ?d = "Element ''[document]'' []
        [Element ''div'' []
           [Element ''p'' [] [Text '' first  para ''],
            Element ''p'' [] [Text ''  ''],
            Comment ''note'',
            Element ''p'' [] [Text ''second'', Element ''i'' [] [Text ''!'']]]]"
  have h: "\<forall>sel \<in> set selectors. select_one sel (decompose unwanted ?d) = None"
    by code_simp
  have r: "collapse (join '' '' (map get_text (find_all [''p''] (decompose unwanted ?d))))
           = ''first para second!''"
    by code_simp
  from extract_content_paragraph_fallback [OF h] r show ?thesis by simp
qed

text \<open>
  C3 as stated fails: in this page no selector matches, the texts of all its paragraph
  elements joined and collapsed are \<open>copyright body\<close>, and the extractor returns
  \<open>body\<close>, since the paragraph in the footer is removed with it.
\<close>

theorem extract_content_removed_paragraph_counterexample:
  "select_one (TypeSel ''article'')
     (Element ''[document]'' []
        [Element ''footer'' [] [Element ''p'' [] [Text ''copyright'']],
         Element ''p'' [] [Text ''body'']]) = None
   \<and> select_one (TypeSel ''main'')
     (Element ''[document]'' []
        [Element ''footer'' [] [Element ''p'' [] [Text ''copyright'']],
         Element ''p'' [] [Text ''body'']]) = None
   \<and> select_one (AttrSel ''role'' ''main'')
     (Element ''[document]'' []
        [Element ''footer'' [] [Element ''p'' [] [Text ''copyright'']],
         Element ''p'' [] [Text ''body'']]) = None
   \<and> select_one (ClassSel ''article-content'')
     (Element ''[document]'' []
        [Element ''footer'' [] [Element ''p'' [] [Text ''copyright'']],
         Element ''p'' [] [Text ''body'']]) = None
   \<and> select_one (ClassSel ''post-content'')
     (Element ''[document]'' []
        [Element ''footer'' [] [Element ''p'' [] [Text ''copyright'']],
         Element ''p'' [] [Text ''body'']]) = None
   \<and> select_one (ClassSel ''entry-content'')
     (Element ''[document]'' []
        [Element ''footer'' [] [Element ''p'' [] [Text ''copyright'']],
         Element ''p'' [] [Text ''body'']]) = None
   \<and> collapse (join '' '' (map get_text (find_all [''p'']
     (Element ''[document]'' []
        [Element ''footer'' [] [Element ''p'' [] [Text ''copyright'']],
         Element ''p'' [] [Text ''body'']])))) = ''copyright body''
   \<and> extract_content
     (Element ''[document]'' []
        [Element ''footer'' [] [Element ''p'' [] [Text ''copyright'']],
         Element ''p'' [] [Text ''body'']]) = ''body''
   \<and> extract_content
     (Element ''[document]'' []
        [Element ''footer'' [] [Element ''p'' [] [Text ''copyright'']],
         Element ''p'' [] [Text ''body'']]) \<noteq> ''copyright body''"
  by code_simp

section \<open>Upstream failures\<close>

text \<open>
  C4 (as amended). With a key configured and an upstream answer whose body is a JSON
  object and whose status is not 200 (401, 5xx or any other failure), the search
  handler returns a body with the single field \<open>error\<close> (the upstream message or a
  default) and the upstream status code; the trending handler does the same for every
  such status except 429.
\<close>

theorem upstream_failure_mirrored:
  assumes "method \<noteq> ''OPTIONS''" and "NEWS_API_KEY = Some key" and "key \<noteq> []"
    and "status_code \<noteq> 200"
  shows "(status_code \<noteq> 429 \<longrightarrow>
            reply (get_trending method category_arg NEWS_API_KEY ts
                     (Answered status_code (JObj kvs)))
            = Inr (Json (JObj [(''error'',
                                case map_of kvs ''message'' of
                                  Some message \<Rightarrow> message
                                | None \<Rightarrow> JStr ''Failed to fetch news'')]),
                   status_code))
       \<and> (get_json = Inr (JObj req) \<and> map_of req ''query'' = Some query \<and> truthy query \<longrightarrow>
            reply (search_news method get_json NEWS_API_KEY tsa tsb
                     (Answered status_code (JObj kvs)))
            = Inr (Json (JObj [(''error'',
                                case map_of kvs ''message'' of
                                  Some message \<Rightarrow> message
                                | None \<Rightarrow> JStr ''Search failed'')]),
                   status_code))"
  using assms by (simp add: get_trending_def search_news_def Let_def)

text \<open>
  Witness: an upstream 401 on trending, and an upstream 429 without a message on
  search, which the search handler does mirror.
\<close>

theorem upstream_failure_mirrored_witness:
  "reply (get_trending ''GET'' (Some ''sports'') (Some ''k1'')
            (''a'', ''b'', ''c'', ''d'', ''e'', ''f'')
            (Answered 401 (JObj [(''status'', JStr ''error''),
                                 (''message'', JStr ''Your API key is invalid'')])))
     = Inr (Json (JObj [(''error'', JStr ''Your API key is invalid'')]), 401)
   \<and> reply (search_news ''POST'' (Inr (JObj [(''query'', JStr ''ai'')])) (Some ''k1'')
              (''a'', ''b'', ''c'', ''d'', ''e'', ''f'') (''a'', ''b'', ''c'', ''d'', ''e'', ''f'')
              (Answered 429 (JObj [(''status'', JStr ''error'')])))
     = Inr (Json (JObj [(''error'', JStr ''Search failed'')]), 429)"
proof -
  have m1: "''GET'' \<noteq> ''OPTIONS''" and m2: "''POST'' \<noteq> ''OPTIONS''"
    by simp_all
  have k: "''k1'' \<noteq> []"
    by simp
  have s1: "(401 :: int) \<noteq> 200" and s2: "(429 :: int) \<noteq> 200" and s3: "(401 :: int) \<noteq> 429"
    by simp_all
  have q: "(Inr (JObj [(''query'', JStr ''ai'')]) :: exn + json) = Inr (JObj [(''query'', JStr ''ai'')])
           \<and> map_of [(''query'', JStr ''ai'')] ''query'' = Some (JStr ''ai'')
           \<and> truthy (JStr ''ai'')"
    by simp
  from upstream_failure_mirrored
         [OF m1 refl k s1,
          where kvs = "[(''status'', JStr ''error''),
                        (''message'', JStr ''Your API key is invalid'')]"
            and category_arg = "Some ''sports''"
            and ts = "(''a'', ''b'', ''c'', ''d'', ''e'', ''f'')"] s3
  have "reply (get_trending ''GET'' (Some ''sports'') (Some ''k1'')
            (''a'', ''b'', ''c'', ''d'', ''e'', ''f'')
            (Answered 401 (JObj [(''status'', JStr ''error''),
                                 (''message'', JStr ''Your API key is invalid'')])))
     = Inr (Json (JObj [(''error'', JStr ''Your API key is invalid'')]), 401)"
    by simp
  moreover from upstream_failure_mirrored
         [OF m2 refl k s2,
          where kvs = "[(''status'', JStr ''error'')]"
            and get_json = "Inr (JObj [(''query'', JStr ''ai'')])"
            and req = "[(''query'', JStr ''ai'')]" and query = "JStr ''ai''"
            and tsa = "(''a'', ''b'', ''c'', ''d'', ''e'', ''f'')"
            and tsb = "(''a'', ''b'', ''c'', ''d'', ''e'', ''f'')"] q
  have "reply (search_news ''POST'' (Inr (JObj [(''query'', JStr ''ai'')])) (Some ''k1'')
              (''a'', ''b'', ''c'', ''d'', ''e'', ''f'') (''a'', ''b'', ''c'', ''d'', ''e'', ''f'')
              (Answered 429 (JObj [(''status'', JStr ''error'')])))
     = Inr (Json (JObj [(''error'', JStr ''Search failed'')]), 429)"
    by simp
  ultimately show ?thesis by simp
qed

text \<open>
  C4 as stated fails for the trending handler at status 429: the reply has status 200
  and no \<open>error\<close> field.
\<close>

theorem trending_429_not_mirrored_counterexample:
  "status_of (get_trending ''GET'' None (Some ''k1'') (''a'', ''b'', ''c'', ''d'', ''e'', ''f'')
                (Answered 429 (JObj [(''status'', JStr ''error''),
                                     (''code'', JStr ''rateLimited''),
                                     (''message'', JStr ''Too many requests'')])))
     = Some 200
   \<and> status_of (get_trending ''GET'' None (Some ''k1'') (''a'', ''b'', ''c'', ''d'', ''e'', ''f'')
                (Answered 429 (JObj [(''status'', JStr ''error''),
                                     (''code'', JStr ''rateLimited''),
                                     (''message'', JStr ''Too many requests'')])))
     \<noteq> Some 429
   \<and> field_of (get_trending ''GET'' None (Some ''k1'') (''a'', ''b'', ''c'', ''d'', ''e'', ''f'')
                (Answered 429 (JObj [(''status'', JStr ''error''),
                                     (''code'', JStr ''rateLimited''),
                                     (''message'', JStr ''Too many requests'')])))
        ''error''
     = None"
  by (simp add: get_trending_def Let_def)

text \<open>
  C5. When the news API answers the trending request with status 429 (its answer being
  a JSON object, as the news API's answers are), the trending handler replies with
  status 200 and the demo articles, with no \<open>error\<close> field.
\<close>

theorem trending_rate_limit_demo:
  assumes "method \<noteq> ''OPTIONS''" and "NEWS_API_KEY = Some key" and "key \<noteq> []"
  shows "reply (get_trending method category_arg NEWS_API_KEY ts (Answered 429 (JObj kvs)))
         = Inr (Json (JObj [(''status'', JStr ''ok''),
                            (''articles'', JArr (get_demo_articles ts)),
                            (''note'', JStr ''Rate limit exceeded - showing demo data'')]),
                200)"
  using assms by (simp add: get_trending_def Let_def)

theorem trending_rate_limit_demo_witness:
  "reply (get_trending ''GET'' (Some ''business'') (Some ''secret'')
            (''t1'', ''t2'', ''t3'', ''t4'', ''t5'', ''t6'')
            (Answered 429 (JObj [(''status'', JStr ''error''),
                                 (''code'', JStr ''rateLimited'')])))
     = Inr (Json (JObj [(''status'', JStr ''ok''),
                        (''articles'',
                         JArr (get_demo_articles (''t1'', ''t2'', ''t3'', ''t4'', ''t5'', ''t6''))),
                        (''note'', JStr ''Rate limit exceeded - showing demo data'')]),
            200)"
  using trending_rate_limit_demo
          [of "''GET''" "Some ''secret''" "''secret''" "Some ''business''"
              "(''t1'', ''t2'', ''t3'', ''t4'', ''t5'', ''t6'')"
              "[(''status'', JStr ''error''), (''code'', JStr ''rateLimited'')]"]
  by simp

section \<open>Missing key and missing input\<close>

text \<open>
  C6. When \<open>NEWS_API_KEY\<close> is not in the environment, the trending endpoint, and the
  search endpoint given a query that is not empty, reply with status 200 and a body
  that holds the demo articles and a \<open>note\<close> field and no \<open>error\<close> field; no upstream
  request is made.
\<close>

theorem no_key_demo_data:
  assumes "NEWS_API_KEY = None" and "method \<noteq> ''OPTIONS''"
  shows "status_of (get_trending method category_arg NEWS_API_KEY ts response) = Some 200
       \<and> field_of (get_trending method category_arg NEWS_API_KEY ts response) ''articles''
           = Some (JArr (get_demo_articles ts))
       \<and> field_of (get_trending method category_arg NEWS_API_KEY ts response) ''note''
           = Some (JStr ''DEMO DATA - Add NEWS_API_KEY to .env for real news'')
       \<and> field_of (get_trending method category_arg NEWS_API_KEY ts response) ''error'' = None
       \<and> calls (get_trending method category_arg NEWS_API_KEY ts response) = []
       \<and> (get_json = Inr (JObj req) \<and> map_of req ''query'' = Some query \<and> truthy query \<longrightarrow>
            status_of (search_news method get_json NEWS_API_KEY tsa tsb response) = Some 200
          \<and> field_of (search_news method get_json NEWS_API_KEY tsa tsb response) ''articles''
              = Some (JArr (get_demo_articles tsb))
          \<and> field_of (search_news method get_json NEWS_API_KEY tsa tsb response) ''note''
              = Some (JStr ''DEMO DATA - Add NEWS_API_KEY to .env for real search'')
          \<and> field_of (search_news method get_json NEWS_API_KEY tsa tsb response) ''error'' = None
          \<and> calls (search_news method get_json NEWS_API_KEY tsa tsb response) = [])"
  using assms by (simp add: get_trending_def search_news_def trending_demo_def search_demo_def)

theorem no_key_demo_data_witness:
  "status_of (get_trending ''GET'' None None (''t1'', ''t2'', ''t3'', ''t4'', ''t5'', ''t6'')
                (Raised (RequestException ''unreachable''))) = Some 200
   \<and> field_of (get_trending ''GET'' None None (''t1'', ''t2'', ''t3'', ''t4'', ''t5'', ''t6'')
                (Raised (RequestException ''unreachable''))) ''note''
       = Some (JStr ''DEMO DATA - Add NEWS_API_KEY to .env for real news'')
   \<and> status_of (search_news ''POST'' (Inr (JObj [(''query'', JStr ''mars'')])) None
                (''t1'', ''t2'', ''t3'', ''t4'', ''t5'', ''t6'')
                (''u1'', ''u2'', ''u3'', ''u4'', ''u5'', ''u6'')
                (Raised (RequestException ''unreachable''))) = Some 200
   \<and> field_of (search_news ''POST'' (Inr (JObj [(''query'', JStr ''mars'')])) None
                (''t1'', ''t2'', ''t3'', ''t4'', ''t5'', ''t6'')
                (''u1'', ''u2'', ''u3'', ''u4'', ''u5'', ''u6'')
                (Raised (RequestException ''unreachable''))) ''articles''
       = Some (JArr (get_demo_articles (''u1'', ''u2'', ''u3'', ''u4'', ''u5'', ''u6'')))"
proof -
  have m1: "''GET'' \<noteq> ''OPTIONS''" and m2: "''POST'' \<noteq> ''OPTIONS''"
    by simp_all
  have q: "(Inr (JObj [(''query'', JStr ''mars'')]) :: exn + json)
             = Inr (JObj [(''query'', JStr ''mars'')])
           \<and> map_of [(''query'', JStr ''mars'')] ''query'' = Some (JStr ''mars'')
           \<and> truthy (JStr ''mars'')"
    by simp
  from no_key_demo_data
         [OF refl m1,
          where category_arg = None and ts = "(''t1'', ''t2'', ''t3'', ''t4'', ''t5'', ''t6'')"
            and response = "Raised (RequestException ''unreachable'')"]
  have "status_of (get_trending ''GET'' None None (''t1'', ''t2'', ''t3'', ''t4'', ''t5'', ''t6'')
                (Raised (RequestException ''unreachable''))) = Some 200
   \<and> field_of (get_trending ''GET'' None None (''t1'', ''t2'', ''t3'', ''t4'', ''t5'', ''t6'')
                (Raised (RequestException ''unreachable''))) ''note''
       = Some (JStr ''DEMO DATA - Add NEWS_API_KEY to .env for real news'')"
    by blast
  moreover from no_key_demo_data
         [OF refl m2,
          where get_json = "Inr (JObj [(''query'', JStr ''mars'')])"
            and req = "[(''query'', JStr ''mars'')]" and query = "JStr ''mars''"
            and tsa = "(''t1'', ''t2'', ''t3'', ''t4'', ''t5'', ''t6'')"
            and tsb = "(''u1'', ''u2'', ''u3'', ''u4'', ''u5'', ''u6'')"
            and response = "Raised (RequestException ''unreachable'')"] q
  have "status_of (search_news ''POST'' (Inr (JObj [(''query'', JStr ''mars'')])) None
                (''t1'', ''t2'', ''t3'', ''t4'', ''t5'', ''t6'')
                (''u1'', ''u2'', ''u3'', ''u4'', ''u5'', ''u6'')
                (Raised (RequestException ''unreachable''))) = Some 200
   \<and> field_of (search_news ''POST'' (Inr (JObj [(''query'', JStr ''mars'')])) None
                (''t1'', ''t2'', ''t3'', ''t4'', ''t5'', ''t6'')
                (''u1'', ''u2'', ''u3'', ''u4'', ''u5'', ''u6'')
                (Raised (RequestException ''unreachable''))) ''articles''
       = Some (JArr (get_demo_articles (''u1'', ''u2'', ''u3'', ''u4'', ''u5'', ''u6'')))"
    by blast
  ultimately show ?thesis by simp
qed

text \<open>
  C7. A search request whose JSON object has no \<open>query\<close> field, or an empty one (any
  value Python counts as false), gets status 400 and a body with an \<open>error\<close> field,
  and the news API is not called, whatever the key.
\<close>

theorem search_empty_query_400:
  assumes "method \<noteq> ''OPTIONS''" and "get_json = Inr (JObj req)"
    and "map_of req ''query'' = None \<or> (\<exists>query. map_of req ''query'' = Some query \<and> \<not> truthy query)"
  shows "search_news method get_json NEWS_API_KEY ts1 ts2 response =
           \<lparr>reply = Inr (Json (JObj [(''error'', JStr ''Query is required'')]), 400),
            calls = []\<rparr>"
  using assms by (auto simp: search_news_def)

theorem search_empty_query_400_witness:
  "search_news ''POST'' (Inr (JObj [(''query'', JStr [])])) (Some ''k1'')
     (''t1'', ''t2'', ''t3'', ''t4'', ''t5'', ''t6'') (''u1'', ''u2'', ''u3'', ''u4'', ''u5'', ''u6'')
     (Answered 200 (JObj []))
     = \<lparr>reply = Inr (Json (JObj [(''error'', JStr ''Query is required'')]), 400), calls = []\<rparr>
   \<and> search_news ''POST'' (Inr (JObj [(''page'', JInt 2)])) None
     (''t1'', ''t2'', ''t3'', ''t4'', ''t5'', ''t6'') (''u1'', ''u2'', ''u3'', ''u4'', ''u5'', ''u6'')
     (Answered 200 (JObj []))
     = \<lparr>reply = Inr (Json (JObj [(''error'', JStr ''Query is required'')]), 400), calls = []\<rparr>"
proof -
  have h1: "map_of [(''query'', JStr [])] ''query'' = None
            \<or> (\<exists>query. map_of [(''query'', JStr [])] ''query'' = Some query \<and> \<not> truthy query)"
    by simp
  have h2: "map_of [(''page'', JInt 2)] ''query'' = None
            \<or> (\<exists>query. map_of [(''page'', JInt 2)] ''query'' = Some query \<and> \<not> truthy query)"
    by simp
  have m: "''POST'' \<noteq> ''OPTIONS''" by simp
  show ?thesis
    using search_empty_query_400 [OF m refl h1] search_empty_query_400 [OF m refl h2]
    by simp
qed

text \<open>
  C8. A summarize request whose JSON object has no \<open>text\<close> field, or an empty \<open>text\<close>,
  gets status 400 and a body with an \<open>error\<close> field, and the AI model is not called,
  whether it is configured or not.
\<close>

theorem summarize_empty_text_400:
  assumes "method \<noteq> ''OPTIONS''" and "get_json = Inr (JObj req)"
    and "map_of req ''text'' = None \<or> map_of req ''text'' = Some (JStr [])"
  shows "summarize_article method get_json gemini_model sliced =
           \<lparr>reply =
              Inr (Json (JObj [(''error'',
                                JStr (if req = [] then ''No data received''
                                      else ''Text is required''))]),
                   400),
            calls = []\<rparr>"
  using assms by (auto simp: summarize_article_def)

theorem summarize_empty_text_400_witness:
  "summarize_article ''POST'' (Inr (JObj [(''text'', JStr [])])) (Some (Inr ''a summary''))
     (Inr [])
     = \<lparr>reply = Inr (Json (JObj [(''error'', JStr ''Text is required'')]), 400), calls = []\<rparr>
   \<and> summarize_article ''POST'' (Inr (JObj [])) (Some (Inr ''a summary'')) (Inr [])
     = \<lparr>reply = Inr (Json (JObj [(''error'', JStr ''No data received'')]), 400), calls = []\<rparr>"
proof -
  have h1: "map_of [(''text'', JStr [])] ''text'' = None
            \<or> map_of [(''text'', JStr [])] ''text'' = Some (JStr [])"
    by simp
  have h2: "map_of ([] :: (string \<times> json) list) ''text'' = None
            \<or> map_of ([] :: (string \<times> json) list) ''text'' = Some (JStr [])"
    by simp
  have m: "''POST'' \<noteq> ''OPTIONS''" by simp
  show ?thesis
    using summarize_empty_text_400 [OF m refl h1] summarize_empty_text_400 [OF m refl h2]
    by simp
qed

section \<open>The extraction reply\<close>

text \<open>
  C9. In every successful reply of the extraction handler (status 200 with a JSON
  object), the page was fetched and the \<open>content\<close> field is the extracted text cut to
  its first 5000 characters: it is never longer than 5000 characters and it is a
  prefix of the full extracted text.
\<close>

theorem extraction_content_truncated:
  assumes "reply (extract_from_url method get_json fetched gemini_model)
           = Inr (Json (JObj flds), 200)"
  shows "\<exists>soup content.
           fetched = Inr soup
         \<and> map_of flds ''content'' = Some (JStr content)
         \<and> content = take 5000 (extract_content soup)
         \<and> length content \<le> 5000
         \<and> prefix content (extract_content soup)"
proof -
  from extract_from_url_200 [OF assms] obtain soup where
    "fetched = Inr soup"
    "map_of flds ''content'' = Some (JStr (take 5000 (extract_content soup)))"
    by blast
  then show ?thesis
    by (simp add: take_is_prefix)
qed

theorem extraction_content_truncated_witness:
  "map_of
     [(''url'', JStr ''https://example.com/a''),
      (''title'', JStr ''A page''),
      (''content'', JStr ''Short story''),
      (''content_length'', JInt 11)] ''content'' = Some (JStr ''Short story'')
   \<and> length ''Short story'' \<le> 5000
   \<and> prefix ''Short story''
        (extract_content
           (Element ''[document]'' []
              [Element ''title'' [] [Text '' A page ''],
               Element ''main'' [] [Text ''Short   story'']]))"
proof -
  let ?d = "Element ''[document]'' []
              [Element ''title'' [] [Text '' A page ''],
               Element ''main'' [] [Text ''Short   story'']]"
  let ?f = "[(''url'', JStr ''https://example.com/a''),
      (''title'', JStr ''A page''),
      (''content'', JStr ''Short story''),
      (''content_length'', JInt 11)]"
  have r: "reply (extract_from_url ''POST''
                    (Inr (JObj [(''url'', JStr ''https://example.com/a''),
                                (''summarize'', JBool False)]))
                    (Inr ?d) None)
           = Inr (Json (JObj ?f), 200)"
    by code_simp
  from extraction_content_truncated [OF r] obtain soup content where
    "(Inr ?d :: exn + node) = Inr soup" "map_of ?f ''content'' = Some (JStr content)"
    "length content \<le> 5000" "prefix content (extract_content soup)"
    by blast
  then show ?thesis by simp
qed

text \<open>
  C10. In every successful reply of the extraction handler, \<open>content_length\<close> is the
  length of the full whitespace-collapsed text, before the cut; when that text is
  longer than 5000 characters, \<open>content_length\<close> is larger than the length of the
  \<open>content\<close> field.
\<close>

theorem extraction_content_length_full:
  assumes "reply (extract_from_url method get_json fetched gemini_model)
           = Inr (Json (JObj flds), 200)"
  shows "\<exists>soup content.
           fetched = Inr soup
         \<and> map_of flds ''content_length'' = Some (JInt (int (length (extract_content soup))))
         \<and> map_of flds ''content'' = Some (JStr content)
         \<and> (5000 < length (extract_content soup)
              \<longrightarrow> length content < length (extract_content soup))"
proof -
  from extract_from_url_200 [OF assms] obtain soup where
    "fetched = Inr soup"
    "map_of flds ''content'' = Some (JStr (take 5000 (extract_content soup)))"
    "map_of flds ''content_length'' = Some (JInt (int (length (extract_content soup))))"
    by blast
  then show ?thesis
    by simp
qed

theorem extraction_content_length_full_witness:
  "5000 < length (extract_content
                    (Element ''[document]'' []
                       [Element ''p'' [] [Text (replicate 5001 CHR ''a'')]]))
   \<and> map_of
       [(''url'', JStr ''https://example.com/long''),
        (''title'', JStr ''No title found''),
        (''content'', JStr (replicate 5000 CHR ''a'')),
        (''content_length'', JInt 5001)] ''content_length''
     = Some (JInt (int (length (extract_content
                    (Element ''[document]'' []
                       [Element ''p'' [] [Text (replicate 5001 CHR ''a'')]])))))
   \<and> length (replicate 5000 CHR ''a'')
     < length (extract_content
                    (Element ''[document]'' []
                       [Element ''p'' [] [Text (replicate 5001 CHR ''a'')]]))"
proof -
  let ?s = "replicate 5001 CHR ''a''"
  let ?d = "Element ''[document]'' [] [Element ''p'' [] [Text ?s]]"
  let ?f = "[(''url'', JStr ''https://example.com/long''),
        (''title'', JStr ''No title found''),
        (''content'', JStr (replicate 5000 CHR ''a'')),
        (''content_length'', JInt 5001)]"
  have ns: "\<forall>c \<in> set ?s. \<not> isspace c"
    by (simp add: isspace_def)
  have ne: "?s \<noteq> []"
    by simp
  have dd: "decompose unwanted ?d = ?d"
    by (simp add: unwanted_def)
  have ts: "try_selectors selectors ?d = []"
    by (simp add: selectors_def select_one_def)
  have pt: "paragraph_text ?d = ?s"
    using ne by (simp add: paragraph_text_def find_all_def get_text_def strip_nospace [OF ns])
  have e: "extract_content ?d = ?s"
    by (simp add: extract_content_def main_content_def dd ts pt collapse_nospace [OF ns]
             del: decompose.simps)
  have tt: "title_text ?d = ''No title found''"
    by (simp add: title_text_def find_first_def)
  have r: "reply (extract_from_url ''POST''
                    (Inr (JObj [(''url'', JStr ''https://example.com/long''),
                                (''summarize'', JBool False)]))
                    (Inr ?d) None)
           = Inr (Json (JObj ?f), 200)"
    using e tt
    by (simp add: extract_from_url_def extract_page_def extraction_result_def dd
                  extract_content_def del: decompose.simps)
  have l: "5000 < length (extract_content ?d)"
    by (simp add: e)
  from extraction_content_length_full [OF r] obtain soup content where
    "(Inr ?d :: exn + node) = Inr soup"
    "map_of ?f ''content_length'' = Some (JInt (int (length (extract_content soup))))"
    "map_of ?f ''content'' = Some (JStr content)"
    "5000 < length (extract_content soup) \<longrightarrow> length content < length (extract_content soup)"
    by blast
  with l show ?thesis by simp
qed

end
